theory Spec2Isabelle
  imports Main
begin

section \<open>Python values and exceptions\<close>

text \<open>
  The notebook cell "Guardrails with Input tags in a multi-turn conversation" builds its
  conversation history from tuples \<^verbatim>\<open>(role, content)\<close>, strings, lists and
  dictionaries with string keys. \<open>pyval\<close> is that universe. A dictionary is an
  association list in insertion order, read with \<open>map_of\<close>.

  A character is a code point below 256, so \<open>string\<close> stands for Python text of that
  range.
\<close>

datatype pyval =
    PStr string
  | PTuple "pyval list"
  | PList "pyval list"
  | PDict "(string \<times> pyval) list"

text \<open>
  The exceptions the cell can meet. \<open>CollaboratorError msg\<close> is any \<^verbatim>\<open>Exception\<close>
  raised by \<^verbatim>\<open>llm.invoke\<close>, with its message; the argument of \<open>KeyError\<close> and of
  \<open>AttributeError\<close> is the missing key or attribute.
\<close>

datatype error =
    KeyError string
  | IndexError
  | TypeError
  | AttributeError string
  | EOFError
  | CollaboratorError string

text \<open>\<^verbatim>\<open>isinstance(message, dict)\<close>\<close>

fun is_dict :: "pyval \<Rightarrow> bool" where
  "is_dict (PDict _) = True"
| "is_dict _ = False"

text \<open>
  \<^verbatim>\<open>x[k]\<close> for a string key \<open>k\<close>: a dictionary is looked up (KeyError when the key is
  absent); strings, tuples and lists take integer indices only (TypeError).
\<close>

fun getitem_key :: "pyval \<Rightarrow> string \<Rightarrow> error + pyval" where
  "getitem_key (PDict kvs) k =
     (case map_of kvs k of None \<Rightarrow> Inl (KeyError k) | Some v \<Rightarrow> Inr v)"
| "getitem_key _ k = Inl TypeError"

text \<open>
  \<^verbatim>\<open>x[0]\<close>: the first element of a list or tuple, the first character of a string (as a
  string), IndexError when there is none; a dictionary has string keys only, so the key
  0 is absent.
\<close>

fun getitem_0 :: "pyval \<Rightarrow> error + pyval" where
  "getitem_0 (PList []) = Inl IndexError"
| "getitem_0 (PList (x # _)) = Inr x"
| "getitem_0 (PTuple []) = Inl IndexError"
| "getitem_0 (PTuple (x # _)) = Inr x"
| "getitem_0 (PStr []) = Inl IndexError"
| "getitem_0 (PStr (c # _)) = Inr (PStr [c])"
| "getitem_0 (PDict _) = Inl (KeyError ''0'')"

text \<open>Sequencing of computations that may raise.\<close>

fun bind_err :: "error + 'a \<Rightarrow> ('a \<Rightarrow> error + 'b) \<Rightarrow> error + 'b" where
  "bind_err (Inl e) f = Inl e"
| "bind_err (Inr x) f = f x"

section \<open>The two message formats\<close>

text \<open>
  \<^verbatim>\<open>
  def create_guardrails_format(text):
      return {"role": "user",
              "content": [{"guardContent": {"text": {"text": text}}}]}
  \<close>
\<close>

definition create_guardrails_format :: "pyval \<Rightarrow> pyval" where
  "create_guardrails_format text =
     PDict [(''role'', PStr ''user''),
            (''content'',
               PList [PDict [(''guardContent'',
                        PDict [(''text'', PDict [(''text'', text)])])]])]"

text \<open>\<^verbatim>\<open>message["content"][0]["guardContent"]["text"]["text"]\<close>, subscript by subscript.\<close>

definition guard_text :: "pyval \<Rightarrow> error + pyval" where
  "guard_text message =
     bind_err (getitem_key message ''content'') (\<lambda>c.
     bind_err (getitem_0 c) (\<lambda>c0.
     bind_err (getitem_key c0 ''guardContent'') (\<lambda>g.
     bind_err (getitem_key g ''text'') (\<lambda>t.
     getitem_key t ''text''))))"

text \<open>
  \<^verbatim>\<open>
  def convert_to_standard_format(message_history):
      standardized_messages = []
      for message in message_history:
          if isinstance(message, dict):
              role = message["role"]
              content = message["content"][0]["guardContent"]["text"]["text"]
              standardized_messages.append((role, content))
          else:
              standardized_messages.append(message)
      return standardized_messages
  \<close>
  \<open>convert_loop\<close> is the \<^verbatim>\<open>for\<close> loop, its first argument the list built so far.
\<close>

fun convert_loop :: "pyval list \<Rightarrow> pyval list \<Rightarrow> error + pyval list" where
  "convert_loop standardized_messages [] = Inr standardized_messages"
| "convert_loop standardized_messages (message # rest) =
     (if is_dict message then
        bind_err (getitem_key message ''role'') (\<lambda>role.
        bind_err (guard_text message) (\<lambda>content.
        convert_loop (standardized_messages @ [PTuple [role, content]]) rest))
      else convert_loop (standardized_messages @ [message]) rest)"

definition convert_to_standard_format :: "pyval list \<Rightarrow> error + pyval list" where
  "convert_to_standard_format message_history = convert_loop [] message_history"

section \<open>Text operations of the read loop\<close>

text \<open>
  \<^verbatim>\<open>str.isspace\<close>, \<^verbatim>\<open>str.strip()\<close> and \<^verbatim>\<open>str.lower()\<close> on code points below 256:
  the white space is 9 to 13, 28 to 32, 133 and 160; the letters with a lower case are
  65 to 90 and 192 to 222 without 215, each 32 below its lower case.
\<close>

definition isspace :: "char \<Rightarrow> bool" where
  "isspace c =
     (let n = (of_char c :: nat)
      in (9 \<le> n \<and> n \<le> 13) \<or> (28 \<le> n \<and> n \<le> 32) \<or> n = 133 \<or> n = 160)"

definition strip :: "string \<Rightarrow> string" where
  "strip s = rev (dropWhile isspace (rev (dropWhile isspace s)))"

definition lower_char :: "char \<Rightarrow> char" where
  "lower_char c =
     (let n = (of_char c :: nat)
      in if (65 \<le> n \<and> n \<le> 90) \<or> (192 \<le> n \<and> n \<le> 222 \<and> n \<noteq> 215)
         then char_of (n + 32) else c)"

definition lower :: "string \<Rightarrow> string" where
  "lower s = map lower_char s"

section \<open>The chat session\<close>

text \<open>
  What the loop writes to standard output: the prompt of \<^verbatim>\<open>input\<close>, a fixed line,
  the printed history, the line \<^verbatim>\<open>Assistant: ...\<close> with the content it shows and the
  line \<^verbatim>\<open>Error: ...\<close> with the exception it shows.
\<close>

datatype printout =
    Prompt string
  | Line string
  | History "pyval list"
  | Assistant pyval
  | ErrorLine error

text \<open>
  The local variable \<open>conversation_history\<close>, with two observations of the run: the
  output so far and the sequences passed to \<^verbatim>\<open>llm.invoke\<close> so far.
\<close>

record session =
  conversation_history :: "pyval list"
  printed :: "printout list"
  invoked :: "pyval list list"

text \<open>
  The collaborator \<^verbatim>\<open>llm.invoke\<close>: from the submitted sequence to the content of the
  reply, or the exception raised.
\<close>

type_synonym chat_model = "pyval list \<Rightarrow> error + pyval"

text \<open>How one pass through the loop body ends.\<close>

datatype control = Next | Break | Raise error

definition system_turn :: pyval where
  "system_turn =
     PTuple [PStr ''system'',
       PStr ''You are a helpful assistant that helps customers with bank related tasks like opening a checking or savings bank account, check balances.'']"

definition say :: "printout list \<Rightarrow> session \<Rightarrow> session" where
  "say os s = s\<lparr>printed := printed s @ os\<rparr>"

text \<open>
  \<^verbatim>\<open>
  except Exception as e:
      print(f"Error: {str(e)}")
      print("Please try again.")
      # pop the last conversation history
      conversation_history.popRight()
  \<close>
  A Python list has no attribute \<^verbatim>\<open>popRight\<close>: the last statement raises
  AttributeError, which leaves the handler and the loop.
\<close>

definition except_handler :: "error \<Rightarrow> session \<Rightarrow> control \<times> session" where
  "except_handler e s =
     (Raise (AttributeError ''popRight''),
      say [ErrorLine e, Line ''Please try again.''] s)"

text \<open>
  \<^verbatim>\<open>
  try:
      conversation_history = convert_to_standard_format(conversation_history)
      conversation_history.append(create_guardrails_format(user_input))
      ai_response = llm.invoke(conversation_history)
      conversation_history.append(("assistant", ai_response.content))
      print(f"Assistant: {ai_response.content}")
  except Exception as e: ...
  \<close>
\<close>

definition submit :: "chat_model \<Rightarrow> session \<Rightarrow> string \<Rightarrow> control \<times> session" where
  "submit llm s user_input =
     (case convert_to_standard_format (conversation_history s) of
        Inl e \<Rightarrow> except_handler e s
      | Inr standard \<Rightarrow>
          (let tagged = standard @ [create_guardrails_format (PStr user_input)];
               s1 = s\<lparr>conversation_history := tagged, invoked := invoked s @ [tagged]\<rparr>
           in case llm tagged of
                Inl e \<Rightarrow> except_handler e s1
              | Inr content \<Rightarrow>
                  (Next,
                   say [Assistant content]
                     (s1\<lparr>conversation_history :=
                           tagged @ [PTuple [PStr ''assistant'', content]]\<rparr>))))"

text \<open>
  One pass through the body of \<^verbatim>\<open>while True\<close>, on the line that \<^verbatim>\<open>input\<close> returned:
  \<^verbatim>\<open>
  user_input = input("You: ").strip()
  if user_input.lower() == 'quit':
      print("Chat ended."); break
  if not user_input:
      print("Please enter a message."); continue
  if user_input.lower() == 'debug_dump':
      print("DEBUG_DUMP CALLED"); print(conversation_history); continue
  try: ...
  \<close>
\<close>

definition loop_body :: "chat_model \<Rightarrow> session \<Rightarrow> string \<Rightarrow> control \<times> session" where
  "loop_body llm s line =
     (let s0 = say [Prompt ''You: ''] s;
          user_input = strip line
      in if lower user_input = ''quit'' then (Break, say [Line ''Chat ended.''] s0)
         else if user_input = [] then (Next, say [Line ''Please enter a message.''] s0)
         else if lower user_input = ''debug_dump'' then
           (Next, say [Line ''DEBUG_DUMP CALLED'', History (conversation_history s0)] s0)
         else submit llm s0 user_input)"

text \<open>
  The loop over the lines that standard input holds: \<^verbatim>\<open>input\<close> raises EOFError once
  they are used up.
\<close>

fun while_loop :: "chat_model \<Rightarrow> session \<Rightarrow> string list \<Rightarrow> control \<times> session" where
  "while_loop llm s [] = (Raise EOFError, say [Prompt ''You: ''] s)"
| "while_loop llm s (line # rest) =
     (case loop_body llm s line of
        (Next, s') \<Rightarrow> while_loop llm s' rest
      | (c, s') \<Rightarrow> (c, s'))"

definition start :: session where
  "start =
     \<lparr>conversation_history = [system_turn],
      printed = [Line ''Chat started. Type 'quit' to exit.''],
      invoked = []\<rparr>"

definition run_chat_interface :: "chat_model \<Rightarrow> string list \<Rightarrow> control \<times> session" where
  "run_chat_interface llm lines = while_loop llm start lines"

text \<open>
  The session at the top of the loop once the given lines have been read, \<open>None\<close> when
  the loop has ended before.
\<close>

fun state_after :: "chat_model \<Rightarrow> session \<Rightarrow> string list \<Rightarrow> session option" where
  "state_after llm s [] = Some s"
| "state_after llm s (line # rest) =
     (case loop_body llm s line of
        (Next, s') \<Rightarrow> state_after llm s' rest
      | _ \<Rightarrow> None)"

text \<open>
  What one pass of the \<^verbatim>\<open>for\<close> loop of \<open>convert_to_standard_format\<close> appends for a
  message: the pair read out of a dictionary, any other message as it is.
\<close>

definition standard_entry :: "pyval \<Rightarrow> error + pyval" where
  "standard_entry message =
     (if is_dict message then
        bind_err (getitem_key message ''role'') (\<lambda>role.
        bind_err (guard_text message) (\<lambda>content. Inr (PTuple [role, content])))
      else Inr message)"

section \<open>Shapes of the history\<close>

text \<open>A plain turn: a pair \<^verbatim>\<open>(role, content)\<close>.\<close>

fun is_plain_turn :: "pyval \<Rightarrow> bool" where
  "is_plain_turn (PTuple [role, content]) = True"
| "is_plain_turn _ = False"

text \<open>
  The histories the loop holds when it asks for input: the system turn alone, or the
  system turn, an even number of plain turns, the tagged turn of the latest submission
  and the assistant's reply to it.
\<close>

definition transcript :: "pyval list \<Rightarrow> bool" where
  "transcript h \<longleftrightarrow>
     h = [system_turn] \<or>
     (\<exists>p u r. h = system_turn # p @
                  [create_guardrails_format (PStr u), PTuple [PStr ''assistant'', r]]
         \<and> (\<forall>m\<in>set p. is_plain_turn m) \<and> even (length p))"

text \<open>A submitted sequence: plain turns, then one tagged turn built from a text.\<close>

definition good_call :: "pyval list \<Rightarrow> bool" where
  "good_call m \<longleftrightarrow>
     m \<noteq> [] \<and> (\<exists>u. last m = create_guardrails_format (PStr u))
       \<and> (\<forall>x\<in>set (butlast m). is_plain_turn x)"

text \<open>Two collaborators for the scenarios: one that answers every call, one that
  raises on every call.\<close>

definition answering :: chat_model where
  "answering submitted = Inr (PStr ''A checking account is a deposit account.'')"

definition failing :: chat_model where
  "failing submitted = Inl (CollaboratorError ''Sorry I cannot respond to that.'')"

section \<open>Conversion between the formats\<close>

lemma bind_err_Inr: "bind_err m f = Inr y \<longleftrightarrow> (\<exists>x. m = Inr x \<and> f x = Inr y)"
  by (cases m) auto

lemma standard_entry_plain: "\<not> is_dict m \<Longrightarrow> standard_entry m = Inr m"
  by (simp add: standard_entry_def)

lemma standard_entry_not_dict: "standard_entry m = Inr x \<Longrightarrow> \<not> is_dict x"
  by (auto simp: standard_entry_def bind_err_Inr split: if_splits)

lemma guard_text_create: "guard_text (create_guardrails_format t) = Inr t"
  by (simp add: guard_text_def create_guardrails_format_def)

lemma role_create: "getitem_key (create_guardrails_format t) ''role'' = Inr (PStr ''user'')"
  by (simp add: create_guardrails_format_def)

lemma is_dict_create: "is_dict (create_guardrails_format t)"
  by (simp add: create_guardrails_format_def)

lemma standard_entry_create:
  "standard_entry (create_guardrails_format t) = Inr (PTuple [PStr ''user'', t])"
  by (simp add: standard_entry_def guard_text_create role_create is_dict_create)

lemma convert_loop_step:
  "convert_loop acc (m # ms) = bind_err (standard_entry m) (\<lambda>x. convert_loop (acc @ [x]) ms)"
  by (cases "getitem_key m ''role''"; cases "guard_text m") (simp_all add: standard_entry_def)

text \<open>The loop succeeds exactly when every message converts, and then appends the
  converted messages in their order.\<close>

lemma convert_loop_Inr:
  "convert_loop acc h = Inr r \<longleftrightarrow>
     (\<exists>t. r = acc @ t \<and> list_all2 (\<lambda>m x. standard_entry m = Inr x) h t)"
proof (induction h arbitrary: acc r)
  case Nil
  show ?case by auto
next
  case (Cons m ms)
  show ?case
    unfolding convert_loop_step bind_err_Inr Cons.IH
    by (auto simp: list_all2_Cons1)
qed

lemma convert_Inr:
  "convert_to_standard_format h = Inr r \<longleftrightarrow> list_all2 (\<lambda>m x. standard_entry m = Inr x) h r"
  by (simp add: convert_to_standard_format_def convert_loop_Inr)

lemma convert_plain:
  assumes "\<forall>m\<in>set h. \<not> is_dict m"
  shows "convert_to_standard_format h = Inr h"
  unfolding convert_Inr using assms
  by (induction h) (simp_all add: standard_entry_plain)

lemma convert_not_dict:
  assumes "convert_to_standard_format h = Inr r"
  shows "\<forall>x\<in>set r. \<not> is_dict x"
  using assms unfolding convert_Inr
  by (induction rule: list_all2_induct) (auto dest: standard_entry_not_dict)

lemma convert_length:
  "convert_to_standard_format h = Inr r \<Longrightarrow> length r = length h"
  unfolding convert_Inr by (simp add: list_all2_lengthD)

lemma convert_append:
  assumes "convert_to_standard_format h = Inr r" "convert_to_standard_format k = Inr q"
  shows "convert_to_standard_format (h @ k) = Inr (r @ q)"
  using assms unfolding convert_Inr by (rule list_all2_appendI)

text \<open>
  Claim C7. For every text \<open>t\<close>, converting a history whose entry is
  \<open>create_guardrails_format t\<close> turns that entry into the pair \<open>("user", t)\<close>: the tagged
  turn has the role "user", and its content is a list of one moderation wrapper that
  carries exactly \<open>t\<close>.
\<close>

theorem untag_recovers_plain_user_turn:
  "convert_to_standard_format [create_guardrails_format (PStr t)]
     = Inr [PTuple [PStr ''user'', PStr t]]
   \<and> getitem_key (create_guardrails_format (PStr t)) ''role'' = Inr (PStr ''user'')
   \<and> getitem_key (create_guardrails_format (PStr t)) ''content''
       = Inr (PList [PDict [(''guardContent'', PDict [(''text'', PDict [(''text'', PStr t)])])]])
   \<and> guard_text (create_guardrails_format (PStr t)) = Inr (PStr t)"
  by (simp add: convert_Inr standard_entry_create guard_text_create role_create)
    (simp add: create_guardrails_format_def)

text \<open>
  Claim C9. \<open>convert_to_standard_format\<close> is idempotent on every history (where it
  raises, converting again raises the same exception); where it returns, the result has
  the length of the input, its entry at each index is the conversion of the input's entry
  at that index (so the order is kept), and an entry that is not a dictionary is returned
  as it is. A history without dictionaries is returned unchanged.
\<close>

theorem convert_to_standard_format_idempotent:
  "bind_err (convert_to_standard_format h) convert_to_standard_format
     = convert_to_standard_format h
   \<and> (convert_to_standard_format h = Inr h' \<longrightarrow>
        length h' = length h
      \<and> (\<forall>i<length h. convert_to_standard_format [h ! i] = Inr [h' ! i])
      \<and> (\<forall>i<length h. \<not> is_dict (h ! i) \<longrightarrow> h' ! i = h ! i)
      \<and> convert_to_standard_format h' = Inr h')
   \<and> ((\<forall>m\<in>set k. \<not> is_dict m) \<longrightarrow> convert_to_standard_format k = Inr k)"
proof (intro conjI impI)
  show "bind_err (convert_to_standard_format h) convert_to_standard_format
          = convert_to_standard_format h"
  proof (cases "convert_to_standard_format h")
    case (Inl e)
    then show ?thesis by simp
  next
    case (Inr r)
    then show ?thesis using convert_plain [OF convert_not_dict [OF Inr]] by simp
  qed
next
  assume c: "convert_to_standard_format h = Inr h'"
  then show "length h' = length h" by (rule convert_length)
  from c have l2: "list_all2 (\<lambda>m x. standard_entry m = Inr x) h h'"
    by (simp add: convert_Inr)
  show "\<forall>i<length h. convert_to_standard_format [h ! i] = Inr [h' ! i]"
    using l2 by (simp add: convert_Inr list_all2_conv_all_nth)
  show "\<forall>i<length h. \<not> is_dict (h ! i) \<longrightarrow> h' ! i = h ! i"
    using l2 by (auto simp: list_all2_conv_all_nth standard_entry_plain)
  show "convert_to_standard_format h' = Inr h'"
    using convert_plain [OF convert_not_dict [OF c]] .
next
  assume "\<forall>m\<in>set k. \<not> is_dict m"
  then show "convert_to_standard_format k = Inr k" by (rule convert_plain)
qed

theorem convert_to_standard_format_idempotent_witness:
  "convert_to_standard_format [system_turn, create_guardrails_format (PStr ''hi'')]
     = Inr [system_turn, PTuple [PStr ''user'', PStr ''hi'']]
   \<and> \<not> is_dict system_turn
   \<and> convert_to_standard_format [system_turn, PTuple [PStr ''user'', PStr ''hi'']]
     = Inr [system_turn, PTuple [PStr ''user'', PStr ''hi'']]
   \<and> [system_turn, PTuple [PStr ''user'', PStr ''hi'']] ! 0
     = [system_turn, create_guardrails_format (PStr ''hi'')] ! 0
   \<and> convert_to_standard_format [system_turn] = Inr [system_turn]"
proof -
  have c: "convert_to_standard_format [system_turn, create_guardrails_format (PStr ''hi'')]
             = Inr [system_turn, PTuple [PStr ''user'', PStr ''hi'']]"
    by (simp add: convert_Inr standard_entry_create standard_entry_plain system_turn_def)
  have p: "\<not> is_dict system_turn"
    by (simp add: system_turn_def)
  show ?thesis
    using c p
      convert_to_standard_format_idempotent
        [of "[system_turn, create_guardrails_format (PStr ''hi'')]"
            "[system_turn, PTuple [PStr ''user'', PStr ''hi'']]" "[system_turn]"]
    by simp
qed

section \<open>The read loop\<close>

lemma say_say: "say xs (say ys s) = say (ys @ xs) s"
  by (simp add: say_def)

lemma say_fields [simp]:
  "conversation_history (say xs s) = conversation_history s"
  "invoked (say xs s) = invoked s"
  "printed (say xs s) = printed s @ xs"
  by (simp_all add: say_def)

lemma lower_Nil: "lower [] = []"
  by (simp add: lower_def)

lemma lower_eq_Nil: "lower u = [] \<longleftrightarrow> u = []"
  by (simp add: lower_def)

lemma loop_body_quit:
  "lower (strip line) = ''quit'' \<Longrightarrow>
     loop_body llm s line = (Break, say [Prompt ''You: '', Line ''Chat ended.''] s)"
  by (simp add: loop_body_def Let_def say_say)

lemma loop_body_blank:
  "strip line = [] \<Longrightarrow>
     loop_body llm s line = (Next, say [Prompt ''You: '', Line ''Please enter a message.''] s)"
  by (simp add: loop_body_def Let_def say_say lower_Nil)

lemma loop_body_dump:
  assumes "lower (strip line) = ''debug_dump''"
  shows "loop_body llm s line =
     (Next, say [Prompt ''You: '', Line ''DEBUG_DUMP CALLED'', History (conversation_history s)] s)"
proof -
  from assms have "strip line \<noteq> []" by (auto simp: lower_Nil)
  with assms show ?thesis by (simp add: loop_body_def Let_def say_say)
qed

lemma loop_body_submit:
  "lower (strip line) \<noteq> ''quit'' \<Longrightarrow> strip line \<noteq> [] \<Longrightarrow> lower (strip line) \<noteq> ''debug_dump'' \<Longrightarrow>
     loop_body llm s line = submit llm (say [Prompt ''You: ''] s) (strip line)"
  by (simp add: loop_body_def Let_def)

lemma submit_convert_fails:
  "convert_to_standard_format (conversation_history s) = Inl e \<Longrightarrow>
     submit llm s u = except_handler e s"
  by (simp add: submit_def)

lemma submit_call_fails:
  "convert_to_standard_format (conversation_history s) = Inr h \<Longrightarrow>
   llm (h @ [create_guardrails_format (PStr u)]) = Inl e \<Longrightarrow>
     submit llm s u =
       except_handler e
         (s\<lparr>conversation_history := h @ [create_guardrails_format (PStr u)],
            invoked := invoked s @ [h @ [create_guardrails_format (PStr u)]]\<rparr>)"
  by (simp add: submit_def Let_def)

lemma submit_succeeds:
  "convert_to_standard_format (conversation_history s) = Inr h \<Longrightarrow>
   llm (h @ [create_guardrails_format (PStr u)]) = Inr r \<Longrightarrow>
     submit llm s u =
       (Next, say [Assistant r]
         (s\<lparr>conversation_history :=
               h @ [create_guardrails_format (PStr u), PTuple [PStr ''assistant'', r]],
            invoked := invoked s @ [h @ [create_guardrails_format (PStr u)]]\<rparr>))"
  by (simp add: submit_def Let_def)

lemma is_plain_turn_not_dict: "is_plain_turn m \<Longrightarrow> \<not> is_dict m"
  by (cases m) auto

lemma is_plain_turn_system: "is_plain_turn system_turn"
  by (simp add: system_turn_def)

lemma not_dict_system: "\<not> is_dict system_turn"
  by (simp add: system_turn_def)

lemma transcript_convert:
  assumes "transcript h"
  shows "\<exists>p. convert_to_standard_format h = Inr (system_turn # p)
           \<and> (\<forall>m\<in>set p. is_plain_turn m) \<and> even (length p) \<and> Suc (length p) = length h"
  using assms unfolding transcript_def
proof (elim disjE exE conjE)
  assume "h = [system_turn]"
  then show ?thesis
    by (simp add: convert_Inr standard_entry_plain not_dict_system)
next
  fix p u r
  assume h: "h = system_turn # p @ [create_guardrails_format (PStr u), PTuple [PStr ''assistant'', r]]"
    and p: "\<forall>m\<in>set p. is_plain_turn m" and e: "even (length p)"
  have 1: "convert_to_standard_format (system_turn # p) = Inr (system_turn # p)"
    using p by (intro convert_plain) (auto simp: not_dict_system is_plain_turn_not_dict)
  have 2: "convert_to_standard_format [create_guardrails_format (PStr u), PTuple [PStr ''assistant'', r]]
            = Inr [PTuple [PStr ''user'', PStr u], PTuple [PStr ''assistant'', r]]"
    by (simp add: convert_Inr standard_entry_create standard_entry_plain)
  have "convert_to_standard_format h
          = Inr (system_turn # (p @ [PTuple [PStr ''user'', PStr u], PTuple [PStr ''assistant'', r]]))"
    using convert_append [OF 1 2] by (simp add: h)
  then show ?thesis using p e by (auto simp: h)
qed

lemma transcript_step:
  assumes "transcript h" "convert_to_standard_format h = Inr h'"
  shows "transcript (h' @ [create_guardrails_format (PStr u), PTuple [PStr ''assistant'', r]])"
proof -
  from transcript_convert [OF assms(1)] assms(2)
  obtain p where "h' = system_turn # p" "\<forall>m\<in>set p. is_plain_turn m" "even (length p)"
    by auto
  then show ?thesis unfolding transcript_def by auto
qed

lemma transcript_start: "transcript [system_turn]"
  by (simp add: transcript_def)

lemma transcript_head: "transcript h \<Longrightarrow> h ! 0 = system_turn"
  by (auto simp: transcript_def)

lemma transcript_dicts:
  assumes "transcript h"
  shows "odd (length h) \<and> (\<forall>i<length h. is_dict (h ! i) = (i + 2 = length h))"
  using assms unfolding transcript_def
proof (elim disjE exE conjE)
  assume "h = [system_turn]"
  then show ?thesis by (simp add: not_dict_system)
next
  fix p u r
  assume h: "h = system_turn # p @ [create_guardrails_format (PStr u), PTuple [PStr ''assistant'', r]]"
    and p: "\<forall>m\<in>set p. is_plain_turn m" and e: "even (length p)"
  let ?q = "system_turn # p"
  have q: "\<forall>m\<in>set ?q. \<not> is_dict m"
    using p by (auto simp: not_dict_system is_plain_turn_not_dict)
  have h': "h = ?q @ [create_guardrails_format (PStr u), PTuple [PStr ''assistant'', r]]"
    by (simp add: h)
  have len: "length h = length ?q + 2" by (simp add: h)
  have "is_dict (h ! i) = (i + 2 = length h)" if lt: "i < length h" for i
  proof -
    consider "i < length ?q" | "i = length ?q" | "i = Suc (length ?q)"
      using lt len by linarith
    then show ?thesis
    proof cases
      case 1
      then have "h ! i = ?q ! i" unfolding h' by (simp only: nth_append if_True)
      moreover have "?q ! i \<in> set ?q" using 1 by (rule nth_mem)
      ultimately show ?thesis using q 1 len by auto
    next
      case 2
      then have "h ! i = create_guardrails_format (PStr u)"
        unfolding h' by (simp only: nth_append_length)
      then show ?thesis using 2 len by (simp add: is_dict_create)
    next
      case 3
      then have "h ! i = PTuple [PStr ''assistant'', r]"
        unfolding h' by (simp add: nth_append)
      then show ?thesis using 3 len by simp
    qed
  qed
  then show ?thesis using e len by simp
qed

text \<open>The ways one pass through the loop body can end, from a history of the loop's shape.\<close>

lemma loop_body_outcomes [consumes 1, case_names quit blank dump failed answered]:
  assumes t: "transcript (conversation_history s)"
  obtains
    (quit) "lower (strip line) = ''quit''"
      "loop_body llm s line = (Break, say [Prompt ''You: '', Line ''Chat ended.''] s)"
  | (blank) "strip line = []"
      "loop_body llm s line = (Next, say [Prompt ''You: '', Line ''Please enter a message.''] s)"
  | (dump) "lower (strip line) = ''debug_dump''"
      "loop_body llm s line =
         (Next, say [Prompt ''You: '', Line ''DEBUG_DUMP CALLED'',
                     History (conversation_history s)] s)"
  | (failed) p e s' where
      "convert_to_standard_format (conversation_history s) = Inr (system_turn # p)"
      "\<forall>m\<in>set p. is_plain_turn m" "even (length p)"
      "Suc (length p) = length (conversation_history s)"
      "llm (system_turn # p @ [create_guardrails_format (PStr (strip line))]) = Inl e"
      "loop_body llm s line = (Raise (AttributeError ''popRight''), s')"
      "conversation_history s' = system_turn # p @ [create_guardrails_format (PStr (strip line))]"
      "invoked s' = invoked s @ [system_turn # p @ [create_guardrails_format (PStr (strip line))]]"
      "printed s' = printed s @ [Prompt ''You: '', ErrorLine e, Line ''Please try again.'']"
  | (answered) p r s' where
      "convert_to_standard_format (conversation_history s) = Inr (system_turn # p)"
      "\<forall>m\<in>set p. is_plain_turn m" "even (length p)"
      "Suc (length p) = length (conversation_history s)"
      "llm (system_turn # p @ [create_guardrails_format (PStr (strip line))]) = Inr r"
      "loop_body llm s line = (Next, s')"
      "conversation_history s' =
         system_turn # p @ [create_guardrails_format (PStr (strip line)),
                            PTuple [PStr ''assistant'', r]]"
      "invoked s' = invoked s @ [system_turn # p @ [create_guardrails_format (PStr (strip line))]]"
      "printed s' = printed s @ [Prompt ''You: '', Assistant r]"
proof -
  from transcript_convert [OF t] obtain p where
    c: "convert_to_standard_format (conversation_history s) = Inr (system_turn # p)"
    and p: "\<forall>m\<in>set p. is_plain_turn m" "even (length p)"
      "Suc (length p) = length (conversation_history s)"
    by blast
  let ?s0 = "say [Prompt ''You: ''] s"
  let ?u = "strip line"
  let ?m = "system_turn # p @ [create_guardrails_format (PStr ?u)]"
  have c0: "convert_to_standard_format (conversation_history ?s0) = Inr (system_turn # p)"
    using c by simp
  consider "lower ?u = ''quit''" | "?u = []" | "lower ?u = ''debug_dump''"
    | "lower ?u \<noteq> ''quit''" "?u \<noteq> []" "lower ?u \<noteq> ''debug_dump''"
    by blast
  then show thesis
  proof cases
    case 1
    then show thesis using quit loop_body_quit by blast
  next
    case 2
    then show thesis using blank loop_body_blank by blast
  next
    case 3
    then show thesis using dump loop_body_dump by blast
  next
    case 4
    then have b: "loop_body llm s line = submit llm ?s0 ?u" by (rule loop_body_submit)
    show thesis
    proof (cases "llm ?m")
      case (Inl e)
      then have l: "llm ((system_turn # p) @ [create_guardrails_format (PStr ?u)]) = Inl e"
        by simp
      show thesis
        by (rule failed [OF c p Inl],
            simp add: b submit_call_fails [where llm = llm, OF c0 l] except_handler_def,
            simp_all)
    next
      case (Inr r)
      then have l: "llm ((system_turn # p) @ [create_guardrails_format (PStr ?u)]) = Inr r"
        by simp
      show thesis
        by (rule answered [OF c p Inr],
            simp add: b submit_succeeds [where llm = llm, OF c0 l],
            simp_all)
    qed
  qed
qed


lemma start_fields:
  "conversation_history start = [system_turn]" "invoked start = []"
  by (simp_all add: start_def)

lemma loop_body_next:
  assumes t: "transcript (conversation_history s)"
    and b: "loop_body llm s line = (Next, s')"
  shows "transcript (conversation_history s')"
    and "length (conversation_history s) = Suc (2 * length (invoked s)) \<Longrightarrow>
         length (conversation_history s') = Suc (2 * length (invoked s'))"
proof -
  have "transcript (conversation_history s') \<and>
        (length (conversation_history s) = Suc (2 * length (invoked s)) \<longrightarrow>
         length (conversation_history s') = Suc (2 * length (invoked s')))"
    using t
  proof (cases rule: loop_body_outcomes [where line = line and llm = llm])
    case quit
    with b show ?thesis by simp
  next
    case blank
    with b t show ?thesis by auto
  next
    case dump
    with b t show ?thesis by auto
  next
    case (failed p e s1)
    with b show ?thesis by simp
  next
    case (answered p r s1)
    with b have s1: "s1 = s'" by simp
    have "transcript (conversation_history s1)"
      unfolding answered(7) transcript_def using answered(2,3) by blast
    moreover have "length (conversation_history s1) = length (conversation_history s) + 2"
      unfolding answered(7) using answered(4) by simp
    moreover have "length (invoked s1) = Suc (length (invoked s))"
      unfolding answered(8) by simp
    ultimately show ?thesis unfolding s1 by simp
  qed
  then show "transcript (conversation_history s')"
    and "length (conversation_history s) = Suc (2 * length (invoked s)) \<Longrightarrow>
         length (conversation_history s') = Suc (2 * length (invoked s'))"
    by simp_all
qed

lemma state_after_inv:
  assumes "state_after llm s ls = Some s'"
    and "transcript (conversation_history s)"
    and "length (conversation_history s) = Suc (2 * length (invoked s))"
  shows "transcript (conversation_history s') \<and>
         length (conversation_history s') = Suc (2 * length (invoked s'))"
  using assms
proof (induction ls arbitrary: s)
  case Nil
  then show ?case by simp
next
  case (Cons line rest)
  from Cons.prems(1) obtain s1 where
    b: "loop_body llm s line = (Next, s1)" and r: "state_after llm s1 rest = Some s'"
    by (auto split: prod.splits control.splits)
  show ?case
    using Cons.IH [OF r loop_body_next(1) [OF Cons.prems(2) b]
                        loop_body_next(2) [OF Cons.prems(2) b Cons.prems(3)]] .
qed

lemma reached:
  assumes "state_after llm start ls = Some s"
  shows "transcript (conversation_history s)"
    and "length (conversation_history s) = Suc (2 * length (invoked s))"
  using state_after_inv [OF assms] by (simp_all add: start_fields transcript_start)

lemma good_call_append:
  assumes "\<forall>m\<in>set p. is_plain_turn m"
  shows "good_call (system_turn # p @ [create_guardrails_format (PStr u)])"
proof -
  have "butlast (system_turn # p @ [create_guardrails_format (PStr u)]) = system_turn # p"
    by (simp add: butlast_append)
  then show ?thesis
    unfolding good_call_def using assms by (auto simp: is_plain_turn_system)
qed

lemma loop_body_calls:
  assumes t: "transcript (conversation_history s)"
    and g: "\<forall>m\<in>set (invoked s). good_call m"
  shows "\<forall>m\<in>set (invoked (snd (loop_body llm s line))). good_call m"
  using t
proof (cases rule: loop_body_outcomes [where line = line and llm = llm])
  case quit
  with g show ?thesis by simp
next
  case blank
  with g show ?thesis by simp
next
  case dump
  with g show ?thesis by simp
next
  case (failed p e s1)
  then show ?thesis using g good_call_append [OF failed(2)] by simp
next
  case (answered p r s1)
  then show ?thesis using g good_call_append [OF answered(2)] by simp
qed

lemma while_loop_calls:
  assumes "transcript (conversation_history s)" "\<forall>m\<in>set (invoked s). good_call m"
  shows "\<forall>m\<in>set (invoked (snd (while_loop llm s ls))). good_call m"
  using assms
proof (induction ls arbitrary: s)
  case Nil
  then show ?case by simp
next
  case (Cons line rest)
  obtain c s1 where b: "loop_body llm s line = (c, s1)" by (cases "loop_body llm s line")
  have g1: "\<forall>m\<in>set (invoked s1). good_call m"
    using loop_body_calls [OF Cons.prems, of llm line] b by simp
  show ?case
  proof (cases c)
    case Next
    with b have "while_loop llm s (line # rest) = while_loop llm s1 rest" by simp
    moreover have "transcript (conversation_history s1)"
      using loop_body_next(1) [OF Cons.prems(1)] b Next by simp
    ultimately show ?thesis using Cons.IH g1 by simp
  next
    case Break
    with b g1 show ?thesis by simp
  next
    case (Raise e)
    with b g1 show ?thesis by simp
  qed
qed

lemma good_call_filter:
  assumes "good_call m"
  shows "filter is_dict m = [last m]"
proof -
  from assms have m: "m = butlast m @ [last m]" and d: "is_dict (last m)"
    and p: "\<forall>x\<in>set (butlast m). \<not> is_dict x"
    by (auto simp: good_call_def is_dict_create is_plain_turn_not_dict)
  have "filter is_dict m = filter is_dict (butlast m) @ filter is_dict [last m]"
    by (subst m) (simp only: filter_append)
  also have "\<dots> = [last m]" using d p by simp
  finally show ?thesis .
qed

text \<open>
  Claim C4. Every sequence passed to \<^verbatim>\<open>llm.invoke\<close> during a run is non-empty, its
  last element is the tagged turn built from a text, that element is its only
  dictionary, and every earlier element is a plain turn.
\<close>
theorem submitted_sequence_tagged_last:
  "\<forall>m\<in>set (invoked (snd (run_chat_interface llm lines))).
     m \<noteq> []
     \<and> (\<exists>u. last m = create_guardrails_format (PStr u))
     \<and> is_dict (last m)
     \<and> length (filter is_dict m) = 1
     \<and> (\<forall>x\<in>set (butlast m). is_plain_turn x \<and> \<not> is_dict x)"
proof
  fix m
  assume "m \<in> set (invoked (snd (run_chat_interface llm lines)))"
  then have g: "good_call m"
    using while_loop_calls [of start llm lines]
    by (simp add: run_chat_interface_def start_fields transcript_start)
  then show "m \<noteq> []
     \<and> (\<exists>u. last m = create_guardrails_format (PStr u))
     \<and> is_dict (last m)
     \<and> length (filter is_dict m) = 1
     \<and> (\<forall>x\<in>set (butlast m). is_plain_turn x \<and> \<not> is_dict x)"
    using good_call_filter [OF g]
    by (auto simp: good_call_def is_dict_create is_plain_turn_not_dict)
qed

theorem submitted_sequence_tagged_last_witness:
  "invoked (snd (run_chat_interface answering [''What is a checking account?'']))
     = [[system_turn, create_guardrails_format (PStr ''What is a checking account?'')]]
   \<and> last [system_turn, create_guardrails_format (PStr ''What is a checking account?'')]
     = create_guardrails_format (PStr ''What is a checking account?'')
   \<and> length (filter is_dict
        [system_turn, create_guardrails_format (PStr ''What is a checking account?'')]) = 1
   \<and> is_plain_turn system_turn"
proof -
  have e: "invoked (snd (run_chat_interface answering [''What is a checking account?'']))
     = [[system_turn, create_guardrails_format (PStr ''What is a checking account?'')]]"
    by code_simp
  from submitted_sequence_tagged_last [of answering "[''What is a checking account?'']"] e
  show ?thesis by simp
qed

lemma strip_eq_Nil: "strip line = [] \<longleftrightarrow> (\<forall>c\<in>set line. isspace c)"
proof
  assume "strip line = []"
  then have a: "\<forall>c\<in>set (dropWhile isspace line). isspace c"
    by (simp add: strip_def dropWhile_eq_Nil_conv)
  have "dropWhile isspace line = []"
  proof (rule ccontr)
    assume n: "dropWhile isspace line \<noteq> []"
    then have "\<not> isspace (hd (dropWhile isspace line))" by (rule hd_dropWhile)
    moreover have "hd (dropWhile isspace line) \<in> set (dropWhile isspace line)"
      using n by (rule hd_in_set)
    ultimately show False using a by blast
  qed
  then show "\<forall>c\<in>set line. isspace c" by (simp add: dropWhile_eq_Nil_conv)
next
  assume "\<forall>c\<in>set line. isspace c"
  then have d: "dropWhile isspace line = []" by (simp add: dropWhile_eq_Nil_conv)
  show "strip line = []" unfolding strip_def d by simp
qed

text \<open>
  Claim C6. A line that is empty after trimming (that is, a line of white space only)
  makes the loop body print its request for a message and go on to the next line: no
  call to \<^verbatim>\<open>llm.invoke\<close> is made and the history is unchanged.
\<close>
theorem blank_input_is_skipped:
  assumes "strip line = []"
  shows "loop_body llm s line
           = (Next, say [Prompt ''You: '', Line ''Please enter a message.''] s)
     \<and> conversation_history (snd (loop_body llm s line)) = conversation_history s
     \<and> invoked (snd (loop_body llm s line)) = invoked s
     \<and> while_loop llm s (line # rest)
         = while_loop llm (say [Prompt ''You: '', Line ''Please enter a message.''] s) rest
     \<and> (\<forall>c\<in>set line. isspace c)"
  using assms by (simp add: loop_body_blank strip_eq_Nil)

theorem blank_input_is_skipped_witness:
  "strip [CHR '' '', CHR 0x09, CHR '' ''] = []
   \<and> strip [] = []
   \<and> invoked (snd (loop_body failing start [CHR '' '', CHR 0x09, CHR '' ''])) = []
   \<and> conversation_history (snd (loop_body failing start [CHR '' '', CHR 0x09, CHR '' '']))
       = [system_turn]
   \<and> fst (loop_body failing start [CHR '' '', CHR 0x09, CHR '' '']) = Next"
proof -
  have e: "strip [CHR '' '', CHR 0x09, CHR '' ''] = []" by code_simp
  have n: "strip [] = []" by code_simp
  from blank_input_is_skipped [OF e, of failing start "[]"] e n
  show ?thesis by (simp add: start_fields)
qed

text \<open>
  Claim C8. On the debug-dump command the loop body prints the current history as it is
  and goes on to the next line; the history is the one before the command and no call to
  \<^verbatim>\<open>llm.invoke\<close> is made.
\<close>
theorem debug_dump_leaves_session:
  assumes "lower (strip line) = ''debug_dump''"
  shows "loop_body llm s line
           = (Next, say [Prompt ''You: '', Line ''DEBUG_DUMP CALLED'',
                         History (conversation_history s)] s)
     \<and> printed (snd (loop_body llm s line))
         = printed s @ [Prompt ''You: '', Line ''DEBUG_DUMP CALLED'',
                        History (conversation_history s)]
     \<and> conversation_history (snd (loop_body llm s line)) = conversation_history s
     \<and> invoked (snd (loop_body llm s line)) = invoked s"
  using assms by (simp add: loop_body_dump)

theorem debug_dump_leaves_session_witness:
  "lower (strip ''debug_dump'') = ''debug_dump''
   \<and> loop_body failing start ''debug_dump''
       = (Next, say [Prompt ''You: '', Line ''DEBUG_DUMP CALLED'', History [system_turn]] start)
   \<and> conversation_history (snd (loop_body failing start ''debug_dump'')) = [system_turn]
   \<and> invoked (snd (loop_body failing start ''debug_dump'')) = []"
proof -
  have e: "lower (strip ''debug_dump'') = ''debug_dump''" by code_simp
  from debug_dump_leaves_session [OF e, of failing start] e
  show ?thesis by (simp add: start_fields)
qed

text \<open>
  Claim C10. Commands are recognised on the trimmed, lower-cased line: a line whose
  trimmed lower-case form is "quit" (such as "QUIT" or "  Quit ") ends the loop, and one
  whose trimmed lower-case form is "debug_dump" dumps the history and goes on; neither is
  submitted, so the history and the calls are unchanged.
\<close>
theorem commands_trimmed_case_insensitive:
  "(lower (strip quit_line) = ''quit'' \<longrightarrow>
      loop_body llm s quit_line = (Break, say [Prompt ''You: '', Line ''Chat ended.''] s)
    \<and> while_loop llm s (quit_line # rest)
        = (Break, say [Prompt ''You: '', Line ''Chat ended.''] s)
    \<and> invoked (snd (loop_body llm s quit_line)) = invoked s
    \<and> conversation_history (snd (loop_body llm s quit_line)) = conversation_history s)
   \<and> (lower (strip dump_line) = ''debug_dump'' \<longrightarrow>
      loop_body llm s dump_line
        = (Next, say [Prompt ''You: '', Line ''DEBUG_DUMP CALLED'',
                      History (conversation_history s)] s)
    \<and> while_loop llm s (dump_line # rest)
        = while_loop llm (say [Prompt ''You: '', Line ''DEBUG_DUMP CALLED'',
                               History (conversation_history s)] s) rest
    \<and> invoked (snd (loop_body llm s dump_line)) = invoked s
    \<and> conversation_history (snd (loop_body llm s dump_line)) = conversation_history s)
   \<and> lower (strip ''QUIT'') = ''quit''
   \<and> lower (strip ''  Quit '') = ''quit''
   \<and> lower (strip '' Debug_Dump  '') = ''debug_dump''"
proof (intro conjI impI)
  show "lower (strip ''QUIT'') = ''quit''" by code_simp
  show "lower (strip ''  Quit '') = ''quit''" by code_simp
  show "lower (strip '' Debug_Dump  '') = ''debug_dump''" by code_simp
qed (simp_all add: loop_body_quit loop_body_dump)

theorem commands_trimmed_case_insensitive_witness:
  "lower (strip ''  Quit '') = ''quit''
   \<and> lower (strip '' Debug_Dump  '') = ''debug_dump''
   \<and> while_loop answering start [''  Quit '', ''hello'']
       = (Break, say [Prompt ''You: '', Line ''Chat ended.''] start)
   \<and> loop_body answering start '' Debug_Dump  ''
       = (Next, say [Prompt ''You: '', Line ''DEBUG_DUMP CALLED'', History [system_turn]] start)
   \<and> invoked (snd (loop_body answering start '' Debug_Dump  '')) = []"
proof -
  have q: "lower (strip ''  Quit '') = ''quit''" by code_simp
  have d: "lower (strip '' Debug_Dump  '') = ''debug_dump''" by code_simp
  from commands_trimmed_case_insensitive
         [of "''  Quit ''" answering start "[''hello'']" "'' Debug_Dump  ''"] q d
  show ?thesis by (simp add: start_fields)
qed

text \<open>
  Claim C1, at the input where the code departs from it. The collaborator raises on the
  first submission "What is a good stock to invest on?": the handler's
  \<^verbatim>\<open>conversation_history.popRight()\<close> raises AttributeError, and the history still
  ends with the tagged turn, so it differs from the history before the submission.
\<close>
theorem failed_submission_not_rolled_back:
  "fst (run_chat_interface failing [''What is a good stock to invest on?''])
     = Raise (AttributeError ''popRight'')
   \<and> conversation_history (snd (run_chat_interface failing [''What is a good stock to invest on?'']))
     = [system_turn, create_guardrails_format (PStr ''What is a good stock to invest on?'')]
   \<and> conversation_history (snd (run_chat_interface failing [''What is a good stock to invest on?'']))
     \<noteq> conversation_history start"
  by code_simp

text \<open>
  Claim C2, at the input where the code departs from it. The collaborator raises on the
  first of two lines: the error is printed, then the run ends with AttributeError; the
  second line is never asked for.
\<close>
theorem failed_submission_ends_session:
  "run_chat_interface failing [''What is a good stock to invest on?'', ''What is a checking account?'']
     = (Raise (AttributeError ''popRight''),
        \<lparr>conversation_history =
           [system_turn, create_guardrails_format (PStr ''What is a good stock to invest on?'')],
         printed =
           [Line ''Chat started. Type 'quit' to exit.'', Prompt ''You: '',
            ErrorLine (CollaboratorError ''Sorry I cannot respond to that.''),
            Line ''Please try again.''],
         invoked =
           [[system_turn, create_guardrails_format (PStr ''What is a good stock to invest on?'')]]\<rparr>)"
  by code_simp

lemma transcript_plain:
  assumes "transcript h" "i < length h" "i + 2 \<noteq> length h"
  shows "is_plain_turn (h ! i)"
  using assms(1) unfolding transcript_def
proof (elim disjE exE conjE)
  assume "h = [system_turn]"
  then show ?thesis using assms(2) by (simp add: is_plain_turn_system)
next
  fix p u r
  assume h: "h = system_turn # p @ [create_guardrails_format (PStr u), PTuple [PStr ''assistant'', r]]"
    and p: "\<forall>m\<in>set p. is_plain_turn m"
  let ?q = "system_turn # p"
  have q: "\<forall>m\<in>set ?q. is_plain_turn m"
    using p by (simp add: is_plain_turn_system)
  have h': "h = ?q @ [create_guardrails_format (PStr u), PTuple [PStr ''assistant'', r]]"
    by (simp add: h)
  have len: "length h = length ?q + 2" by (simp add: h)
  consider "i < length ?q" | "i = Suc (length ?q)"
    using assms(2,3) len by linarith
  then show ?thesis
  proof cases
    case 1
    then have "h ! i = ?q ! i" unfolding h' by (simp only: nth_append if_True)
    moreover have "?q ! i \<in> set ?q" using 1 by (rule nth_mem)
    ultimately show ?thesis using q by auto
  next
    case 2
    then have "h ! i = PTuple [PStr ''assistant'', r]"
      unfolding h' by (simp add: nth_append)
    then show ?thesis by simp
  qed
qed

lemma loop_body_history_head:
  assumes t: "transcript (conversation_history s)"
  shows "conversation_history (snd (loop_body llm s line)) ! 0 = system_turn"
  using t
proof (cases rule: loop_body_outcomes [where line = line and llm = llm])
  case quit
  then show ?thesis using transcript_head [OF t] by simp
next
  case blank
  then show ?thesis using transcript_head [OF t] by simp
next
  case dump
  then show ?thesis using transcript_head [OF t] by simp
next
  case (failed p e s1)
  then show ?thesis by simp
next
  case (answered p r s1)
  then show ?thesis by simp
qed

text \<open>What a pass that goes on to the next line has done: nothing to the history and the
  calls, or one answered submission.\<close>

lemma loop_body_counted:
  assumes t: "transcript (conversation_history s)"
    and b: "loop_body llm s line = (Next, s')"
  shows "(invoked s' = invoked s \<and> conversation_history s' = conversation_history s)
     \<or> (\<exists>p r. convert_to_standard_format (conversation_history s) = Inr (system_turn # p)
          \<and> Suc (length p) = length (conversation_history s)
          \<and> llm (system_turn # p @ [create_guardrails_format (PStr (strip line))]) = Inr r
          \<and> conversation_history s'
              = system_turn # p @ [create_guardrails_format (PStr (strip line)),
                                   PTuple [PStr ''assistant'', r]]
          \<and> invoked s'
              = invoked s @ [system_turn # p @ [create_guardrails_format (PStr (strip line))]])"
  using t
proof (cases rule: loop_body_outcomes [where line = line and llm = llm])
  case quit
  with b show ?thesis by simp
next
  case blank
  with b show ?thesis by auto
next
  case dump
  with b show ?thesis by auto
next
  case (failed p e s1)
  with b show ?thesis by simp
next
  case (answered p r s1)
  with b have "s1 = s'" by simp
  with answered show ?thesis by blast
qed

text \<open>
  Claim C5. In every state the loop reaches, index 0 of the history is the system turn,
  and it still is after the next pass, whatever the line and the outcome; the history
  has one turn plus two per submission so far; and a pass that submits and succeeds
  lengthens the history by exactly 2, the tagged user turn and then the assistant turn.
\<close>
theorem successful_submission_adds_two_turns:
  assumes "state_after llm start ls = Some s"
  shows "conversation_history s ! 0 = system_turn
     \<and> conversation_history (snd (loop_body llm s line)) ! 0 = system_turn
     \<and> length (conversation_history s) = 1 + 2 * length (invoked s)
     \<and> (fst (loop_body llm s line) = Next
          \<and> invoked (snd (loop_body llm s line)) \<noteq> invoked s \<longrightarrow>
        length (conversation_history (snd (loop_body llm s line)))
          = length (conversation_history s) + 2
        \<and> (\<exists>r. drop (length (conversation_history s))
                  (conversation_history (snd (loop_body llm s line)))
                = [create_guardrails_format (PStr (strip line)),
                   PTuple [PStr ''assistant'', r]]))"
proof (intro conjI impI)
  note t = reached(1) [OF assms]
  show "conversation_history s ! 0 = system_turn" using t by (rule transcript_head)
  show "conversation_history (snd (loop_body llm s line)) ! 0 = system_turn"
    using t by (rule loop_body_history_head)
  show "length (conversation_history s) = 1 + 2 * length (invoked s)"
    using reached(2) [OF assms] by simp
  assume a: "fst (loop_body llm s line) = Next
               \<and> invoked (snd (loop_body llm s line)) \<noteq> invoked s"
  then have b: "loop_body llm s line = (Next, snd (loop_body llm s line))"
    by (simp add: prod_eq_iff)
  from loop_body_counted [OF t b] a obtain p r where
    l: "Suc (length p) = length (conversation_history s)"
    and h: "conversation_history (snd (loop_body llm s line))
              = (system_turn # p) @ [create_guardrails_format (PStr (strip line)),
                                   PTuple [PStr ''assistant'', r]]"
    by auto
  show "length (conversation_history (snd (loop_body llm s line)))
          = length (conversation_history s) + 2"
    unfolding h using l by simp
  have "drop (length (conversation_history s))
             (conversation_history (snd (loop_body llm s line)))
        = [create_guardrails_format (PStr (strip line)), PTuple [PStr ''assistant'', r]]"
    unfolding h using l by (simp only: drop_append) simp
  then show "\<exists>r. drop (length (conversation_history s))
                  (conversation_history (snd (loop_body llm s line)))
                = [create_guardrails_format (PStr (strip line)),
                   PTuple [PStr ''assistant'', r]]" ..
qed


theorem successful_submission_adds_two_turns_witness:
  "state_after answering start [''What is a checking account?'']
     = Some (snd (loop_body answering start ''What is a checking account?''))
   \<and> fst (loop_body answering
             (snd (loop_body answering start ''What is a checking account?''))
             ''How do I open one?'') = Next
   \<and> invoked (snd (loop_body answering
             (snd (loop_body answering start ''What is a checking account?''))
             ''How do I open one?''))
       \<noteq> invoked (snd (loop_body answering start ''What is a checking account?''))
   \<and> length (conversation_history
         (snd (loop_body answering start ''What is a checking account?''))) = 3
   \<and> length (conversation_history
         (snd (loop_body answering
                (snd (loop_body answering start ''What is a checking account?''))
                ''How do I open one?''))) = 3 + 2
   \<and> conversation_history
         (snd (loop_body answering
                (snd (loop_body answering start ''What is a checking account?''))
                ''How do I open one?'')) ! 0 = system_turn"
proof -
  let ?s1 = "snd (loop_body answering start ''What is a checking account?'')"
  have r: "state_after answering start [''What is a checking account?''] = Some ?s1"
    by code_simp
  have a: "fst (loop_body answering ?s1 ''How do I open one?'') = Next
           \<and> invoked (snd (loop_body answering ?s1 ''How do I open one?'')) \<noteq> invoked ?s1"
    by code_simp
  have n: "length (invoked ?s1) = 1" by code_simp
  from successful_submission_adds_two_turns [OF r, of "''How do I open one?''"] a n r
  show ?thesis by simp
qed

lemma lower_strip_debug_dump: "lower (strip ''debug_dump'') = ''debug_dump''"
  by code_simp

lemma convert_system_only:
  "convert_to_standard_format [system_turn] = Inr [system_turn]"
  by (rule convert_plain) (simp add: not_dict_system)

lemma convert_one_exchange:
  "convert_to_standard_format
     [system_turn, create_guardrails_format (PStr u), PTuple [PStr ''assistant'', r]]
   = Inr [system_turn, PTuple [PStr ''user'', PStr u], PTuple [PStr ''assistant'', r]]"
  by (simp add: convert_Inr standard_entry_create standard_entry_plain not_dict_system)

lemma after_first_submission:
  assumes "loop_body llm start l1 = (Next, s1)" "invoked s1 \<noteq> []"
  shows "\<exists>r1. llm [system_turn, create_guardrails_format (PStr (strip l1))] = Inr r1
          \<and> conversation_history s1
              = [system_turn, create_guardrails_format (PStr (strip l1)),
                 PTuple [PStr ''assistant'', r1]]
          \<and> length (invoked s1) = 1"
proof -
  have t: "transcript (conversation_history start)"
    by (simp add: start_fields transcript_start)
  from loop_body_counted [OF t assms(1)] assms(2)
  show ?thesis by (auto simp: start_fields convert_system_only)
qed

text \<open>
  Claim C3, amended. In every state the loop reaches, the debug dump prints the history,
  in which every turn is a plain turn except the latest user turn (the second to last
  element), which is still tagged. After one successful submission the dump shows the
  system turn, the tagged user turn and the reply; after two it shows five turns in the
  order of insertion, of which only the fourth is tagged.
\<close>
theorem dump_shows_latest_user_turn_tagged:
  assumes "state_after llm start ls = Some s"
  shows "loop_body llm s ''debug_dump''
           = (Next, say [Prompt ''You: '', Line ''DEBUG_DUMP CALLED'',
                         History (conversation_history s)] s)
     \<and> length (conversation_history s) = 1 + 2 * length (invoked s)
     \<and> (\<forall>i<length (conversation_history s).
           is_dict (conversation_history s ! i) = (i + 2 = length (conversation_history s)))
     \<and> (\<forall>i<length (conversation_history s).
           i + 2 \<noteq> length (conversation_history s) \<longrightarrow>
           is_plain_turn (conversation_history s ! i))
     \<and> (state_after llm start [l1] = Some s1 \<and> length (invoked s1) = 1 \<longrightarrow>
          (\<exists>r1. llm [system_turn, create_guardrails_format (PStr (strip l1))] = Inr r1
             \<and> conversation_history s1
                 = [system_turn,
                    create_guardrails_format (PStr (strip l1)),
                    PTuple [PStr ''assistant'', r1]]))
     \<and> (state_after llm start [l1, l2] = Some s2 \<and> length (invoked s2) = 2 \<longrightarrow>
          (\<exists>r1 r2. conversation_history s2
                 = [system_turn,
                    PTuple [PStr ''user'', PStr (strip l1)],
                    PTuple [PStr ''assistant'', r1],
                    create_guardrails_format (PStr (strip l2)),
                    PTuple [PStr ''assistant'', r2]]))"
proof (intro conjI impI allI)
  note t = reached(1) [OF assms]
  show "loop_body llm s ''debug_dump''
           = (Next, say [Prompt ''You: '', Line ''DEBUG_DUMP CALLED'',
                         History (conversation_history s)] s)"
    using lower_strip_debug_dump by (rule loop_body_dump)
  show "length (conversation_history s) = 1 + 2 * length (invoked s)"
    using reached(2) [OF assms] by simp
  show "is_dict (conversation_history s ! i) = (i + 2 = length (conversation_history s))"
    if "i < length (conversation_history s)" for i
    using transcript_dicts [OF t] that by blast
  show "is_plain_turn (conversation_history s ! i)"
    if "i < length (conversation_history s)" "i + 2 \<noteq> length (conversation_history s)" for i
    using t that by (rule transcript_plain)
next
  assume a: "state_after llm start [l1] = Some s1 \<and> length (invoked s1) = 1"
  then have b: "loop_body llm start l1 = (Next, s1)"
    by (auto split: prod.splits control.splits)
  from a have "invoked s1 \<noteq> []" by auto
  from after_first_submission [OF b this]
  show "\<exists>r1. llm [system_turn, create_guardrails_format (PStr (strip l1))] = Inr r1
             \<and> conversation_history s1
                 = [system_turn,
                    create_guardrails_format (PStr (strip l1)),
                    PTuple [PStr ''assistant'', r1]]"
    by blast
next
  assume a: "state_after llm start [l1, l2] = Some s2 \<and> length (invoked s2) = 2"
  then obtain sa where b1: "loop_body llm start l1 = (Next, sa)"
    and b2: "loop_body llm sa l2 = (Next, s2)"
    by (auto split: prod.splits control.splits)
  have t0: "transcript (conversation_history start)"
    by (simp add: start_fields transcript_start)
  have ta: "transcript (conversation_history sa)"
    using t0 b1 by (rule loop_body_next(1))
  have na: "invoked sa \<noteq> []"
  proof
    assume e: "invoked sa = []"
    from loop_body_counted [OF ta b2] have "length (invoked s2) \<le> 1"
      by (auto simp: e)
    with a show False by simp
  qed
  from after_first_submission [OF b1 na] obtain r1 where
    ha: "conversation_history sa
           = [system_turn, create_guardrails_format (PStr (strip l1)),
              PTuple [PStr ''assistant'', r1]]"
    and la: "length (invoked sa) = 1"
    by blast
  from loop_body_counted [OF ta b2] a la obtain p r2 where
    c: "convert_to_standard_format (conversation_history sa) = Inr (system_turn # p)"
    and h2: "conversation_history s2
              = system_turn # p @ [create_guardrails_format (PStr (strip l2)),
                                   PTuple [PStr ''assistant'', r2]]"
    by auto
  from c have "p = [PTuple [PStr ''user'', PStr (strip l1)], PTuple [PStr ''assistant'', r1]]"
    by (simp add: ha convert_one_exchange)
  with h2 show "\<exists>r1 r2. conversation_history s2
                 = [system_turn,
                    PTuple [PStr ''user'', PStr (strip l1)],
                    PTuple [PStr ''assistant'', r1],
                    create_guardrails_format (PStr (strip l2)),
                    PTuple [PStr ''assistant'', r2]]"
    by simp
qed

theorem dump_shows_latest_user_turn_tagged_witness:
  "state_after answering start [''What is a checking account?'', ''How do I open one?'']
     = Some (snd (loop_body answering
                    (snd (loop_body answering start ''What is a checking account?''))
                    ''How do I open one?''))
   \<and> state_after answering start [''What is a checking account?'']
     = Some (snd (loop_body answering start ''What is a checking account?''))
   \<and> length (invoked (snd (loop_body answering start ''What is a checking account?''))) = 1
   \<and> length (invoked (snd (loop_body answering
                    (snd (loop_body answering start ''What is a checking account?''))
                    ''How do I open one?''))) = 2
   \<and> conversation_history (snd (loop_body answering
                    (snd (loop_body answering start ''What is a checking account?''))
                    ''How do I open one?''))
     = [system_turn,
        PTuple [PStr ''user'', PStr ''What is a checking account?''],
        PTuple [PStr ''assistant'', PStr ''A checking account is a deposit account.''],
        create_guardrails_format (PStr ''How do I open one?''),
        PTuple [PStr ''assistant'', PStr ''A checking account is a deposit account.'']]
   \<and> length (conversation_history (snd (loop_body answering
                    (snd (loop_body answering start ''What is a checking account?''))
                    ''How do I open one?''))) = 5
   \<and> is_dict (create_guardrails_format (PStr ''How do I open one?''))"
proof -
  let ?s1 = "snd (loop_body answering start ''What is a checking account?'')"
  let ?s2 = "snd (loop_body answering ?s1 ''How do I open one?'')"
  have r2: "state_after answering start [''What is a checking account?'', ''How do I open one?'']
              = Some ?s2"
    by code_simp
  have r1: "state_after answering start [''What is a checking account?''] = Some ?s1"
    by code_simp
  have n1: "length (invoked ?s1) = 1" by code_simp
  have n2: "length (invoked ?s2) = 2" by code_simp
  have h2: "conversation_history ?s2
     = [system_turn,
        PTuple [PStr ''user'', PStr ''What is a checking account?''],
        PTuple [PStr ''assistant'', PStr ''A checking account is a deposit account.''],
        create_guardrails_format (PStr ''How do I open one?''),
        PTuple [PStr ''assistant'', PStr ''A checking account is a deposit account.'']]"
    by code_simp
  from dump_shows_latest_user_turn_tagged
         [OF r2, of "''What is a checking account?''" ?s1 "''How do I open one?''" ?s2]
       r1 r2 n1 n2 h2
  show ?thesis by (simp add: is_dict_create)
qed

text \<open>
  Claim C3 as it is stated fails after one successful submission: the dump shows the user
  turn as the tagged dictionary, not as a plain turn.
\<close>

theorem dump_after_one_submission_shows_tagged_turn:
  "printed (snd (run_chat_interface answering
                   [''What is a checking account?'', ''debug_dump'', ''quit'']))
     = [Line ''Chat started. Type 'quit' to exit.'',
        Prompt ''You: '',
        Assistant (PStr ''A checking account is a deposit account.''),
        Prompt ''You: '',
        Line ''DEBUG_DUMP CALLED'',
        History [system_turn,
                 create_guardrails_format (PStr ''What is a checking account?''),
                 PTuple [PStr ''assistant'', PStr ''A checking account is a deposit account.'']],
        Prompt ''You: '',
        Line ''Chat ended.'']
   \<and> is_dict (create_guardrails_format (PStr ''What is a checking account?''))
   \<and> \<not> is_plain_turn (create_guardrails_format (PStr ''What is a checking account?''))"
  by code_simp

end
